theory Spec2Isabelle
  imports Complex_Main
begin

section \<open>Values, errors and strings\<close>

text \<open>
  The repository is one Python module, \<^verbatim>\<open>binderhub/repoproviders.py\<close>. Python strings
  are modelled as \<^typ>\<open>string\<close>. A value read from a JSON document or from the
  configuration is a \<open>json\<close>; Python's \<^verbatim>\<open>None\<close> is \<open>JNull\<close>, so the value a resolver
  returns is a \<open>json\<close> and the not-found sentinel is \<open>JNull\<close>. JSON numbers are kept as
  integers: no code path modelled here computes with a number taken from a document.
\<close>

datatype json =
    JNull
  | JBool bool
  | JNum int
  | JStr string
  | JArr "json list"
  | JObj "(string \<times> json) list"

text \<open>
  Every exception a modelled path can raise is a constructor. \<open>ValueError\<close> carries the
  message the source builds; \<open>IntValueError s\<close> is the \<^verbatim>\<open>ValueError\<close> that \<^verbatim>\<open>int(s)\<close>
  raises on a string that is no integer literal; \<open>HTTPError c\<close> is tornado's error for
  status \<open>c\<close>, re-raised.
\<close>

datatype error =
    ValueError string
  | IntValueError string
  | KeyError string
  | TypeError
  | AttributeError
  | IndexError
  | ZeroDivisionError
  | OverflowError
  | DecodeError
  | HTTPError int
  | NotImplementedError

definition dq :: string where
  "dq = [CHR 0x22]"

text \<open>\<^verbatim>\<open>s.split(sep, n)\<close> for a one-character separator: at most \<open>n\<close> cuts, from the left.\<close>

fun split_max :: "char \<Rightarrow> nat \<Rightarrow> string \<Rightarrow> string list" where
  "split_max sep 0 s = [s]"
| "split_max sep (Suc n) s =
     (if sep \<in> set s
      then takeWhile (\<lambda>c. c \<noteq> sep) s # split_max sep n (tl (dropWhile (\<lambda>c. c \<noteq> sep) s))
      else [s])"

text \<open>\<^verbatim>\<open>s.split(sep)\<close>: every occurrence cuts. The number of cuts never exceeds the length.\<close>

definition split_all :: "char \<Rightarrow> string \<Rightarrow> string list" where
  "split_all sep s = split_max sep (length s) s"

text \<open>\<^verbatim>\<open>s.rsplit(sep, 1)\<close>: one cut, at the last occurrence.\<close>

definition rsplit1 :: "char \<Rightarrow> string \<Rightarrow> string list" where
  "rsplit1 sep s =
     (if sep \<in> set s
      then [rev (tl (dropWhile (\<lambda>c. c \<noteq> sep) (rev s))), rev (takeWhile (\<lambda>c. c \<noteq> sep) (rev s))]
      else [s])"

definition endswith :: "string \<Rightarrow> string \<Rightarrow> bool" where
  "endswith text suffix = (length suffix \<le> length text \<and> drop (length text - length suffix) text = suffix)"

text \<open>
  \<^verbatim>\<open>text[:-(len(suffix))]\<close>: with an empty suffix the slice is \<^verbatim>\<open>text[:0]\<close>, the empty string.
\<close>

definition strip_suffix :: "string \<Rightarrow> string \<Rightarrow> string" where
  "strip_suffix text suffix =
     (if endswith text suffix
      then (if suffix = [] then [] else take (length text - length suffix) text)
      else text)"

definition not_of_form_msg :: "string \<Rightarrow> string" where
  "not_of_form_msg spec =
     ''Spec is not of the form '' @ dq @ ''user/repo/ref'' @ dq @ '', provided: '' @ dq @ spec @ dq @ ''.''"

definition did_you_mean_msg :: "string \<Rightarrow> string" where
  "did_you_mean_msg spec = '' Did you mean '' @ dq @ spec @ ''/master'' @ dq @ ''?''"

definition tokenize_spec :: "string \<Rightarrow> error + string list" where
  "tokenize_spec spec =
     (let spec_parts = split_max (CHR ''/'') 2 spec in
      if length spec_parts \<noteq> 3 then
        (let msg = not_of_form_msg spec;
             msg2 = (if length spec_parts = 2 \<and> last spec_parts \<noteq> ''master''
                     then msg @ did_you_mean_msg spec else msg)
         in Inl (ValueError msg2))
      else Inr spec_parts)"

subsection \<open>The sha1 check and the Git provider\<close>

definition is_lower_hex :: "char \<Rightarrow> bool" where
  "is_lower_hex c = (c \<in> set ''0123456789abcdef'')"

text \<open>
  \<^verbatim>\<open>SHA1_PATTERN.match(sha1)\<close> with \<^verbatim>\<open>SHA1_PATTERN = re.compile(r'[0-9a-f]{40}')\<close>:
  \<^verbatim>\<open>match\<close> anchors the pattern at the start of the string only.
\<close>

definition SHA1_PATTERN_match :: "string \<Rightarrow> bool" where
  "SHA1_PATTERN_match s = (40 \<le> length s \<and> list_all is_lower_hex (take 40 s))"

text \<open>What a resolved reference is: exactly forty lower-case hexadecimal characters.\<close>

definition is_sha1 :: "string \<Rightarrow> bool" where
  "is_sha1 s = (length s = 40 \<and> list_all is_lower_hex s)"

definition sha1_validate :: "string \<Rightarrow> error + unit" where
  "sha1_validate sha1 =
     (if \<not> SHA1_PATTERN_match sha1
      then Inl (ValueError ''resolved_ref is not a valid sha1 hexadecimal hash'')
      else Inr ())"

record git_provider =
  git_spec :: string
  git_repo :: string
  git_resolved_ref :: string
  git_unresolved_ref :: string

text \<open>
  \<^verbatim>\<open>GitRepoProvider.__init__\<close>. \<^verbatim>\<open>urllib.parse.unquote\<close> is a parameter. Unpacking the
  result of \<^verbatim>\<open>rsplit\<close> into two names raises \<^verbatim>\<open>ValueError\<close> when the spec has no \<^verbatim>\<open>/\<close>.
\<close>

definition GitRepoProvider_init :: "(string \<Rightarrow> string) \<Rightarrow> string \<Rightarrow> error + git_provider" where
  "GitRepoProvider_init unquote spec =
     (case rsplit1 (CHR ''/'') spec of
        [url, resolved_ref] \<Rightarrow>
          (if resolved_ref = []
           then Inl (ValueError
             ''`resolved_ref` must be specified as a query parameter for the basic git provider'')
           else (case sha1_validate resolved_ref of
                   Inl e \<Rightarrow> Inl e
                 | Inr _ \<Rightarrow> Inr \<lparr>git_spec = spec, git_repo = unquote url,
                                 git_resolved_ref = resolved_ref,
                                 git_unresolved_ref = resolved_ref\<rparr>))
      | _ \<Rightarrow> Inl (ValueError ''not enough values to unpack (expected 2, got 1)''))"

subsection \<open>Policy: ban list, quota tier, per-pattern configuration\<close>

text \<open>
  \<^verbatim>\<open>re.match(pattern, self.spec, re.IGNORECASE)\<close> is Python's regular-expression engine,
  which is not part of the repository: its truth value is the parameter \<open>rematch pattern spec\<close>
  (match anchored at the start, case ignored), for patterns that compile. The pattern
  lists are lists of strings, as their help texts require.
\<close>

definition is_banned :: "(string \<Rightarrow> string \<Rightarrow> bool) \<Rightarrow> string list \<Rightarrow> string \<Rightarrow> bool" where
  "is_banned rematch banned_specs spec = list_ex (\<lambda>banned. rematch banned spec) banned_specs"

definition has_higher_quota :: "(string \<Rightarrow> string \<Rightarrow> bool) \<Rightarrow> string list \<Rightarrow> string \<Rightarrow> bool" where
  "has_higher_quota rematch high_quota_specs spec =
     list_ex (\<lambda>higher_quota. rematch higher_quota spec) high_quota_specs"

text \<open>\<^verbatim>\<open>d.get(k)\<close> on a dictionary with string keys, each key listed once.\<close>

definition dict_get :: "(string \<times> json) list \<Rightarrow> string \<Rightarrow> json" where
  "dict_get d k = (case map_of d k of None \<Rightarrow> JNull | Some v \<Rightarrow> v)"

definition sq :: string where
  "sq = [CHR 0x27]"

text \<open>\<^verbatim>\<open>"%s" % type(v)\<close>.\<close>

fun type_repr :: "json \<Rightarrow> string" where
  "type_repr JNull = ''<class '' @ sq @ ''NoneType'' @ sq @ ''>''"
| "type_repr (JBool b) = ''<class '' @ sq @ ''bool'' @ sq @ ''>''"
| "type_repr (JNum n) = ''<class '' @ sq @ ''int'' @ sq @ ''>''"
| "type_repr (JStr s) = ''<class '' @ sq @ ''str'' @ sq @ ''>''"
| "type_repr (JArr xs) = ''<class '' @ sq @ ''list'' @ sq @ ''>''"
| "type_repr (JObj kvs) = ''<class '' @ sq @ ''dict'' @ sq @ ''>''"

definition bad_pattern_msg :: "json \<Rightarrow> string" where
  "bad_pattern_msg pattern =
     ''Spec-pattern configuration expected a regex pattern string, not type '' @ type_repr pattern"

definition bad_config_msg :: "json \<Rightarrow> string" where
  "bad_config_msg config =
     ''Spec-pattern configuration expected a specification configuration dict, not type ''
       @ type_repr config"

text \<open>
  The loop of \<^verbatim>\<open>repo_config\<close> over \<^verbatim>\<open>self.spec_config\<close>; the dictionary being built
  is a map, \<^verbatim>\<open>repo_config.update(config)\<close> is \<open>++\<close>.
\<close>

fun scan_spec_config ::
  "(string \<Rightarrow> string \<Rightarrow> bool) \<Rightarrow> string \<Rightarrow> (string \<times> json) list list \<Rightarrow>
     (string \<rightharpoonup> json) \<Rightarrow> error + (string \<rightharpoonup> json)" where
  "scan_spec_config rematch spec [] repo_config = Inr repo_config"
| "scan_spec_config rematch spec (item # items) repo_config =
     (let pattern = dict_get item ''pattern'';
          config = dict_get item ''config''
      in case pattern of
           JStr p \<Rightarrow>
             (case config of
                JObj kvs \<Rightarrow>
                  scan_spec_config rematch spec items
                    (if rematch p spec then repo_config ++ map_of kvs else repo_config)
              | _ \<Rightarrow> Inl (ValueError (bad_config_msg config)))
         | _ \<Rightarrow> Inl (ValueError (bad_pattern_msg pattern)))"

definition repo_config ::
  "(string \<Rightarrow> string \<Rightarrow> bool) \<Rightarrow> string list \<Rightarrow> (string \<times> json) list list \<Rightarrow> string \<Rightarrow>
     (string \<times> json) list \<Rightarrow> error + (string \<rightharpoonup> json)" where
  "repo_config rematch high_quota_specs spec_config spec settings =
     scan_spec_config rematch spec spec_config
       [''quota'' \<mapsto>
          (if has_higher_quota rematch high_quota_specs spec
           then dict_get settings ''per_repo_quota_higher''
           else dict_get settings ''per_repo_quota'')]"

subsection \<open>Python operations on decoded JSON\<close>

fun is_substring :: "string \<Rightarrow> string \<Rightarrow> bool" where
  "is_substring p [] = (p = [])"
| "is_substring p (c # cs) = (take (length p) (c # cs) = p \<or> is_substring p cs)"

text \<open>\<^verbatim>\<open>k in v\<close> for a string \<open>k\<close>: a key of a dict, an element of a list, a substring of a string.\<close>

fun py_in :: "string \<Rightarrow> json \<Rightarrow> error + bool" where
  "py_in k (JObj kvs) = Inr (k \<in> set (map fst kvs))"
| "py_in k (JArr xs) = Inr (JStr k \<in> set xs)"
| "py_in k (JStr s) = Inr (is_substring k s)"
| "py_in k JNull = Inl TypeError"
| "py_in k (JBool b) = Inl TypeError"
| "py_in k (JNum n) = Inl TypeError"

text \<open>\<^verbatim>\<open>v[k]\<close> for a string \<open>k\<close>: only a dict can be indexed by a string.\<close>

fun py_getitem :: "json \<Rightarrow> string \<Rightarrow> error + json" where
  "py_getitem (JObj kvs) k = (case map_of kvs k of None \<Rightarrow> Inl (KeyError k) | Some v \<Rightarrow> Inr v)"
| "py_getitem JNull k = Inl TypeError"
| "py_getitem (JBool b) k = Inl TypeError"
| "py_getitem (JNum n) k = Inl TypeError"
| "py_getitem (JStr s) k = Inl TypeError"
| "py_getitem (JArr xs) k = Inl TypeError"

fun truthy :: "json \<Rightarrow> bool" where
  "truthy JNull = False"
| "truthy (JBool b) = b"
| "truthy (JNum n) = (n \<noteq> 0)"
| "truthy (JStr s) = (s \<noteq> [])"
| "truthy (JArr xs) = (xs \<noteq> [])"
| "truthy (JObj kvs) = (kvs \<noteq> [])"

subsection \<open>Integers in header values, the clock, formatting\<close>

definition is_space :: "char \<Rightarrow> bool" where
  "is_space c = (c \<in> set [CHR 0x20, CHR 0x09, CHR 0x0A, CHR 0x0B, CHR 0x0C, CHR 0x0D,
                           CHR 0x1C, CHR 0x1D, CHR 0x1E, CHR 0x1F])"

definition strip :: "string \<Rightarrow> string" where
  "strip s = rev (dropWhile is_space (rev (dropWhile is_space s)))"

definition is_digit :: "char \<Rightarrow> bool" where
  "is_digit c = (c \<in> set ''0123456789'')"

definition digit_of :: "char \<Rightarrow> nat" where
  "digit_of c = length (takeWhile (\<lambda>d. d \<noteq> c) ''0123456789'')"

text \<open>
  The digits of a decimal literal after its first digit; a single underscore may stand
  between two digits.
\<close>

fun digits_value :: "nat \<Rightarrow> string \<Rightarrow> nat option" where
  "digits_value acc [] = Some acc"
| "digits_value acc (c # cs) =
     (if is_digit c then digits_value (10 * acc + digit_of c) cs
      else if c = CHR ''_'' \<and> cs \<noteq> [] \<and> is_digit (hd cs) then digits_value acc cs
      else None)"

definition py_nat :: "string \<Rightarrow> nat option" where
  "py_nat s = (case s of [] \<Rightarrow> None
               | c # cs \<Rightarrow> if is_digit c then digits_value (digit_of c) cs else None)"

text \<open>\<^verbatim>\<open>int(s)\<close> for an ASCII string: surrounding white space, one optional sign, a decimal literal.\<close>

definition py_int :: "string \<Rightarrow> int option" where
  "py_int s =
     (case strip s of
        [] \<Rightarrow> None
      | c # cs \<Rightarrow>
          if c = CHR ''-'' then map_option (\<lambda>n. - int n) (py_nat cs)
          else if c = CHR ''+'' then map_option int (py_nat cs)
          else map_option int (py_nat (c # cs)))"

text \<open>\<^verbatim>\<open>int(x)\<close> for a float: truncation towards zero. The clock is a rational; the
  subtraction \<^verbatim>\<open>reset_timestamp - time.time()\<close> is taken as exact.\<close>

definition py_trunc :: "rat \<Rightarrow> int" where
  "py_trunc x = (if 0 \<le> x then \<lfloor>x\<rfloor> else \<lceil>x\<rceil>)"

text \<open>
  \<^verbatim>\<open>timedelta(seconds=s)\<close> normalises to days and seconds and raises \<^verbatim>\<open>OverflowError\<close>
  when the number of days exceeds 999999999 in magnitude.
\<close>

definition timedelta :: "int \<Rightarrow> error + unit" where
  "timedelta seconds = (if \<bar>seconds div 86400\<bar> > 999999999 then Inl OverflowError else Inr ())"

fun show_nat :: "nat \<Rightarrow> string" where
  "show_nat n = (if n < 10 then [''0123456789'' ! n]
                 else show_nat (n div 10) @ [''0123456789'' ! (n mod 10)])"

text \<open>\<^verbatim>\<open>"%i" % n\<close>.\<close>

definition show_int :: "int \<Rightarrow> string" where
  "show_int i = (if i < 0 then ''-'' @ show_nat (nat (- i)) else show_nat (nat i))"

section \<open>The network, the shared cache and the GitHub request\<close>

text \<open>
  A request is the URL, the query parameters that \<^verbatim>\<open>url_concat\<close> appends (kept as a list,
  not encoded into the URL), the headers and the user agent. \<^verbatim>\<open>client.fetch\<close> returns a
  response, or raises tornado's \<^verbatim>\<open>HTTPError\<close> with a status code and, possibly, the
  response. A response's headers are a map keyed by the lower-cased header name (tornado's
  \<^verbatim>\<open>HTTPHeaders\<close> ignores case); its body is the decoded JSON document, \<open>None\<close> when
  \<^verbatim>\<open>json.loads(resp.body.decode('utf-8'))\<close> raises. A failure below HTTP (no connection,
  no answer) is not an outcome of the model.
\<close>

record request =
  req_url :: string
  req_params :: "(string \<times> string) list"
  req_headers :: "(string \<times> string) list"
  req_user_agent :: string

record response =
  code :: int
  headers :: "string \<rightharpoonup> string"
  body :: "json option"
  effective_url :: string

datatype fetch_outcome =
    Fetched response
  | Raised int "response option"

record cache_entry =
  entry_etag :: "string option"
  entry_sha :: json

datatype event =
    Fetch request
  | CacheGet string
  | CacheSet string cache_entry
  | CacheMoveToEnd string

text \<open>
  Everything outside a provider instance: the class-level cache shared by all GitHub
  providers (least recently used entry first), the network (the answer to the \<open>n\<close>-th
  fetch of the process), the number of fetches made so far, the clock, the prometheus
  gauge, and a log of the fetches and cache operations performed.
\<close>

record world =
  cache :: "(string \<times> cache_entry) list"
  net :: "nat \<Rightarrow> request \<Rightarrow> fetch_outcome"
  fetches :: nat
  now :: rat
  gauge :: "int option"
  trace :: "event list"

definition fetch :: "request \<Rightarrow> world \<Rightarrow> fetch_outcome \<times> world" where
  "fetch req w =
     (net w (fetches w) req, w\<lparr>fetches := Suc (fetches w), trace := trace w @ [Fetch req]\<rparr>)"

subsection \<open>The cache\<close>

text \<open>
  Modelled from the spec: the class \<^verbatim>\<open>Cache\<close> of \<^verbatim>\<open>binderhub/utils.py\<close>, which the module
  imports and which is not among the sources. The spec describes a bounded store ordered by
  recency: a key that is inserted or looked up becomes the most recently used one; \<open>set\<close>
  inserts or overwrites, marks the key most recently used and drops least recently used
  entries while the capacity is exceeded; a refresh moves a key to the most recently used
  end without rewriting its value. The capacity here is \<^verbatim>\<open>Cache(1024)\<close>.
\<close>

definition max_size :: nat where
  "max_size = 1024"

definition touch :: "(string \<times> cache_entry) list \<Rightarrow> string \<Rightarrow> cache_entry \<Rightarrow> (string \<times> cache_entry) list" where
  "touch c k v = filter (\<lambda>kv. fst kv \<noteq> k) c @ [(k, v)]"

definition cache_get ::
  "(string \<times> cache_entry) list \<Rightarrow> string \<Rightarrow> cache_entry option \<times> (string \<times> cache_entry) list" where
  "cache_get c k = (case map_of c k of None \<Rightarrow> (None, c) | Some v \<Rightarrow> (Some v, touch c k v))"

definition cache_set ::
  "(string \<times> cache_entry) list \<Rightarrow> string \<Rightarrow> cache_entry \<Rightarrow> (string \<times> cache_entry) list" where
  "cache_set c k v = (let c2 = touch c k v in drop (length c2 - max_size) c2)"

definition move_to_end ::
  "(string \<times> cache_entry) list \<Rightarrow> string \<Rightarrow> error + (string \<times> cache_entry) list" where
  "move_to_end c k = (case map_of c k of None \<Rightarrow> Inl (KeyError k) | Some v \<Rightarrow> Inr (touch c k v))"

subsection \<open>\<^verbatim>\<open>GitHubRepoProvider.github_api_request\<close>\<close>

text \<open>\<^verbatim>\<open>int(headers[name])\<close>.\<close>

definition int_of_header :: "(string \<rightharpoonup> string) \<Rightarrow> string \<Rightarrow> error + int" where
  "int_of_header hs name =
     (case hs name of
        None \<Rightarrow> Inl (KeyError name)
      | Some s \<Rightarrow> (case py_int s of None \<Rightarrow> Inl (IntValueError s) | Some n \<Rightarrow> Inr n))"

definition rate_limit_msg :: "int \<Rightarrow> string" where
  "rate_limit_msg minutes_until_reset =
     ''GitHub rate limit exceeded. Try again in '' @ show_int minutes_until_reset @ '' minutes.''"

text \<open>
  The branch of a 403 answer whose remaining quota is \<^verbatim>\<open>'0'\<close> (lines 471 to 485): every
  path through it raises; the result is the exception. The argument of the log call is
  built before the \<^verbatim>\<open>raise\<close>, so a time out of the range of \<^verbatim>\<open>timedelta\<close> raises first.
\<close>

definition rate_limit_exceeded :: "(string \<rightharpoonup> string) \<Rightarrow> rat \<Rightarrow> error" where
  "rate_limit_exceeded hs t =
     (case hs ''x-ratelimit-limit'' of
        None \<Rightarrow> KeyError ''x-ratelimit-limit''
      | Some rate_limit \<Rightarrow>
          (case int_of_header hs ''x-ratelimit-reset'' of
             Inl e \<Rightarrow> e
           | Inr reset_timestamp \<Rightarrow>
               (let reset_seconds = py_trunc (of_int reset_timestamp - t) in
                case timedelta reset_seconds of
                  Inl e \<Rightarrow> e
                | Inr _ \<Rightarrow>
                    (let minutes_until_reset = 5 * (1 + (reset_seconds div 60 div 5))
                     in ValueError (rate_limit_msg minutes_until_reset)))))"

text \<open>
  Lines 493 to 515, for a response that is returned: the three headers are read as
  integers, the gauge is set, the fraction is computed (division by a zero limit raises),
  the time to the reset is formatted. The log line itself leaves no trace in the model.
\<close>

definition record_rate_limit :: "response \<Rightarrow> world \<Rightarrow> (error + response option) \<times> world" where
  "record_rate_limit resp w =
     (case int_of_header (headers resp) ''x-ratelimit-remaining'' of
        Inl e \<Rightarrow> (Inl e, w)
      | Inr remaining \<Rightarrow>
     (case int_of_header (headers resp) ''x-ratelimit-limit'' of
        Inl e \<Rightarrow> (Inl e, w)
      | Inr rate_limit \<Rightarrow>
     (case int_of_header (headers resp) ''x-ratelimit-reset'' of
        Inl e \<Rightarrow> (Inl e, w)
      | Inr reset_timestamp \<Rightarrow>
          (let w1 = w\<lparr>gauge := Some remaining\<rparr> in
           if rate_limit = 0 then (Inl ZeroDivisionError, w1)
           else (case timedelta (py_trunc (of_int reset_timestamp - now w1)) of
                   Inl e \<Rightarrow> (Inl e, w1)
                 | Inr _ \<Rightarrow> (Inr (Some resp), w1))))))"

definition is_rate_limited :: "int \<Rightarrow> response option \<Rightarrow> bool" where
  "is_rate_limited c r =
     (c = 403 \<and> (case r of None \<Rightarrow> False
                  | Some resp \<Rightarrow> headers resp ''x-ratelimit-remaining'' = Some ''0''))"

definition api_request :: "(string \<times> string) list \<Rightarrow> string \<Rightarrow> string option \<Rightarrow> request" where
  "api_request auth api_url etag =
     \<lparr>req_url = api_url,
      req_params = auth,
      req_headers = (case etag of
                       None \<Rightarrow> []
                     | Some e \<Rightarrow> if e \<noteq> [] then [(''If-None-Match'', e)] else []),
      req_user_agent = ''BinderHub''\<rparr>"

text \<open>
  The result is \<open>Inl\<close> an exception, \<open>Inr None\<close> for \<^verbatim>\<open>return None\<close>, \<open>Inr (Some resp)\<close>
  for \<^verbatim>\<open>return resp\<close>. The rate-limit condition holds only of an error that carries a
  response, so the first branch of the inner case is never taken.
\<close>

definition github_api_request ::
  "(string \<times> string) list \<Rightarrow> string \<Rightarrow> string option \<Rightarrow> world \<Rightarrow> (error + response option) \<times> world" where
  "github_api_request auth api_url etag w =
     (case fetch (api_request auth api_url etag) w of
        (Fetched resp, w1) \<Rightarrow> record_rate_limit resp w1
      | (Raised c r, w1) \<Rightarrow>
          if c = 304 then
            (case r of None \<Rightarrow> (Inl AttributeError, w1) | Some resp \<Rightarrow> record_rate_limit resp w1)
          else if is_rate_limited c r then
            (case r of
               None \<Rightarrow> (Inl (HTTPError c), w1)
             | Some resp \<Rightarrow> (Inl (rate_limit_exceeded (headers resp) (now w1)), w1))
          else if c = 404 \<or> c = 422 then (Inr None, w1)
          else (Inl (HTTPError c), w1))"

section \<open>The providers\<close>

text \<open>
  A provider instance is a record of its attributes. The attribute \<^verbatim>\<open>resolved_ref\<close> of
  the GitHub, GitLab and Gist providers is set by the first resolution that stores an
  outcome: \<open>None\<close> is the absent attribute (\<^verbatim>\<open>hasattr\<close> is false), \<open>Some v\<close> the
  attribute with value \<open>v\<close>. A resolution returns the exception or the value, the instance
  and the world after the call.
\<close>

subsection \<open>GitHub\<close>

record github_provider =
  gh_spec :: string
  gh_user :: string
  gh_repo :: string
  gh_unresolved_ref :: string
  gh_hostname :: string
  gh_auth :: "(string \<times> string) list"
  gh_resolved_ref :: "json option"

definition GitHubRepoProvider_init ::
  "string \<Rightarrow> (string \<times> string) list \<Rightarrow> string \<Rightarrow> error + github_provider" where
  "GitHubRepoProvider_init hostname auth spec =
     (case tokenize_spec spec of
        Inl e \<Rightarrow> Inl e
      | Inr parts \<Rightarrow>
          Inr \<lparr>gh_spec = spec, gh_user = parts ! 0, gh_repo = strip_suffix (parts ! 1) ''.git'',
               gh_unresolved_ref = parts ! 2, gh_hostname = hostname, gh_auth = auth,
               gh_resolved_ref = None\<rparr>)"

definition github_api_url :: "github_provider \<Rightarrow> string" where
  "github_api_url p =
     ''https://api.'' @ gh_hostname p @ ''/repos/'' @ gh_user p @ ''/'' @ gh_repo p
       @ ''/commits/'' @ gh_unresolved_ref p"

definition github_get_resolved_ref ::
  "github_provider \<Rightarrow> world \<Rightarrow> (error + json) \<times> github_provider \<times> world" where
  "github_get_resolved_ref p w =
     (case gh_resolved_ref p of
        Some v \<Rightarrow> (Inr v, p, w)
      | None \<Rightarrow>
         (let api_url = github_api_url p;
              (cached, c1) = cache_get (cache w) api_url;
              w1 = w\<lparr>cache := c1, trace := trace w @ [CacheGet api_url]\<rparr>;
              tag = (case cached of None \<Rightarrow> None | Some e \<Rightarrow> entry_etag e)
          in case github_api_request (gh_auth p) api_url tag w1 of
               (Inl e, w2) \<Rightarrow> (Inl e, p, w2)
             | (Inr None, w2) \<Rightarrow> (Inr JNull, p, w2)
             | (Inr (Some resp), w2) \<Rightarrow>
                 if code resp = 304 then
                   (case cached of
                      None \<Rightarrow> (Inl TypeError, p, w2)
                    | Some e \<Rightarrow>
                        (let p2 = p\<lparr>gh_resolved_ref := Some (entry_sha e)\<rparr> in
                         case move_to_end (cache w2) api_url of
                           Inl err \<Rightarrow> (Inl err, p2, w2)
                         | Inr c2 \<Rightarrow>
                             (Inr (entry_sha e), p2,
                              w2\<lparr>cache := c2, trace := trace w2 @ [CacheMoveToEnd api_url]\<rparr>)))
                 else
                   (case body resp of
                      None \<Rightarrow> (Inl DecodeError, p, w2)
                    | Some ref_info \<Rightarrow>
                        (case py_in ''sha'' ref_info of
                           Inl err \<Rightarrow> (Inl err, p, w2)
                         | Inr False \<Rightarrow> (Inr JNull, p\<lparr>gh_resolved_ref := Some JNull\<rparr>, w2)
                         | Inr True \<Rightarrow>
                             (case py_getitem ref_info ''sha'' of
                                Inl err \<Rightarrow> (Inl err, p, w2)
                              | Inr v \<Rightarrow>
                                  (let entry = \<lparr>entry_etag = headers resp ''etag'', entry_sha = v\<rparr>
                                   in (Inr v, p\<lparr>gh_resolved_ref := Some v\<rparr>,
                                       w2\<lparr>cache := cache_set (cache w2) api_url entry,
                                          trace := trace w2 @ [CacheSet api_url entry]\<rparr>)))))))"

subsection \<open>Gist\<close>

record gist_provider =
  gist_spec :: string
  gist_user :: string
  gist_id :: string
  gist_unresolved_ref :: string
  gist_allow_secret_gist :: bool
  gist_auth :: "(string \<times> string) list"
  gist_resolved_ref :: "json option"

definition GistRepoProvider_init ::
  "bool \<Rightarrow> (string \<times> string) list \<Rightarrow> string \<Rightarrow> error + gist_provider" where
  "GistRepoProvider_init allow auth spec =
     (let parts = split_all (CHR ''/'') spec in
      case parts of
        user # gid # rest \<Rightarrow>
          Inr \<lparr>gist_spec = spec, gist_user = user, gist_id = gid,
               gist_unresolved_ref = (if length parts > 2 then parts ! 2 else []),
               gist_allow_secret_gist = allow, gist_auth = auth, gist_resolved_ref = None\<rparr>
      | _ \<Rightarrow> Inl (ValueError ''not enough values to unpack (expected at least 2, got 1)''))"

definition secret_gist_msg :: string where
  "secret_gist_msg =
     ''You seem to want to use a secret Gist, but do not have permission to do so. ''
     @ ''To enable secret Gist support, set (or have an administrator set) ''
     @ sq @ ''GistRepoProvider.allow_secret_gist = True'' @ sq"

text \<open>\<^verbatim>\<open>[e['version'] for e in history]\<close> over a list.\<close>

fun versions_of :: "json list \<Rightarrow> error + json list" where
  "versions_of [] = Inr []"
| "versions_of (e # es) =
     (case py_getitem e ''version'' of
        Inl err \<Rightarrow> Inl err
      | Inr v \<Rightarrow> (case versions_of es of Inl err \<Rightarrow> Inl err | Inr vs \<Rightarrow> Inr (v # vs)))"

text \<open>
  The comprehension over whatever \<^verbatim>\<open>ref_info['history']\<close> is: a list yields its elements;
  a dict yields its keys and a string its characters, strings that cannot be indexed by
  \<^verbatim>\<open>'version'\<close>; nothing else can be iterated.
\<close>

fun all_versions_of :: "json \<Rightarrow> error + json list" where
  "all_versions_of (JArr es) = versions_of es"
| "all_versions_of (JObj kvs) = (if kvs = [] then Inr [] else Inl TypeError)"
| "all_versions_of (JStr s) = (if s = [] then Inr [] else Inl TypeError)"
| "all_versions_of JNull = Inl TypeError"
| "all_versions_of (JBool b) = Inl TypeError"
| "all_versions_of (JNum n) = Inl TypeError"

text \<open>
  \<^verbatim>\<open>(not self.allow_secret_gist) and (not ref_info['public'])\<close>: the second operand is
  evaluated only when secret gists are not allowed.
\<close>

definition secret_refused :: "gist_provider \<Rightarrow> json \<Rightarrow> error + bool" where
  "secret_refused p ref_info =
     (if gist_allow_secret_gist p then Inr False
      else (case py_getitem ref_info ''public'' of
              Inl err \<Rightarrow> Inl err
            | Inr v \<Rightarrow> Inr (\<not> truthy v)))"

definition gist_api_url :: "gist_provider \<Rightarrow> string" where
  "gist_api_url p = ''https://api.github.com/gists/'' @ gist_id p"

definition gist_get_resolved_ref ::
  "gist_provider \<Rightarrow> world \<Rightarrow> (error + json) \<times> gist_provider \<times> world" where
  "gist_get_resolved_ref p w =
     (case gist_resolved_ref p of
        Some v \<Rightarrow> (Inr v, p, w)
      | None \<Rightarrow>
         (case github_api_request (gist_auth p) (gist_api_url p) None w of
            (Inl e, w1) \<Rightarrow> (Inl e, p, w1)
          | (Inr None, w1) \<Rightarrow> (Inr JNull, p, w1)
          | (Inr (Some resp), w1) \<Rightarrow>
              (case body resp of
                 None \<Rightarrow> (Inl DecodeError, p, w1)
               | Some ref_info \<Rightarrow>
                  (case secret_refused p ref_info of
                     Inl err \<Rightarrow> (Inl err, p, w1)
                   | Inr True \<Rightarrow> (Inl (ValueError secret_gist_msg), p, w1)
                   | Inr False \<Rightarrow>
                      (case py_getitem ref_info ''history'' of
                         Inl err \<Rightarrow> (Inl err, p, w1)
                       | Inr history \<Rightarrow>
                          (case all_versions_of history of
                             Inl err \<Rightarrow> (Inl err, p, w1)
                           | Inr all_versions \<Rightarrow>
                               if length (gist_unresolved_ref p) = 0 \<or> gist_unresolved_ref p = ''master''
                               then (case all_versions of
                                       [] \<Rightarrow> (Inl IndexError, p, w1)
                                     | v # _ \<Rightarrow> (Inr v, p\<lparr>gist_resolved_ref := Some v\<rparr>, w1))
                               else if JStr (gist_unresolved_ref p) \<notin> set all_versions
                               then (Inr JNull, p, w1)
                               else (Inr (JStr (gist_unresolved_ref p)),
                                     p\<lparr>gist_resolved_ref := Some (JStr (gist_unresolved_ref p))\<rparr>,
                                     w1)))))))"

subsection \<open>GitLab\<close>

record gitlab_provider =
  gl_spec :: string
  gl_namespace :: string
  gl_unresolved_ref :: string
  gl_hostname :: string
  gl_auth :: "(string \<times> string) list"
  gl_resolved_ref :: "json option"

text \<open>
  \<^verbatim>\<open>urllib.parse.quote(s, safe='')\<close> on the bytes of the string: letters, digits and
  \<^verbatim>\<open>_.-~\<close> stay, every other byte becomes \<^verbatim>\<open>%XX\<close>.
\<close>

definition unreserved :: string where
  "unreserved = ''ABCDEFGHIJKLMNOPQRSTUVWXYZabcdefghijklmnopqrstuvwxyz0123456789_.-~''"

definition hex_byte :: "char \<Rightarrow> string" where
  "hex_byte c = [''0123456789ABCDEF'' ! ((of_char c :: nat) div 16),
                 ''0123456789ABCDEF'' ! ((of_char c :: nat) mod 16)]"

definition quote :: "string \<Rightarrow> string" where
  "quote s = concat (map (\<lambda>c. if c \<in> set unreserved then [c] else CHR ''%'' # hex_byte c) s)"

definition gitlab_api_url :: "gitlab_provider \<Rightarrow> string" where
  "gitlab_api_url p =
     ''https://'' @ gl_hostname p @ ''/api/v4/projects/'' @ quote (gl_namespace p)
       @ ''/repository/commits/'' @ quote (gl_unresolved_ref p)"

definition gitlab_get_resolved_ref ::
  "gitlab_provider \<Rightarrow> world \<Rightarrow> (error + json) \<times> gitlab_provider \<times> world" where
  "gitlab_get_resolved_ref p w =
     (case gl_resolved_ref p of
        Some v \<Rightarrow> (Inr v, p, w)
      | None \<Rightarrow>
         (case fetch \<lparr>req_url = gitlab_api_url p, req_params = gl_auth p, req_headers = [],
                      req_user_agent = ''BinderHub''\<rparr> w of
            (Raised c r, w1) \<Rightarrow> if c = 404 then (Inr JNull, p, w1) else (Inl (HTTPError c), p, w1)
          | (Fetched resp, w1) \<Rightarrow>
              (case body resp of
                 None \<Rightarrow> (Inl DecodeError, p, w1)
               | Some ref_info \<Rightarrow>
                   (case py_getitem ref_info ''id'' of
                      Inl err \<Rightarrow> (Inl err, p, w1)
                    | Inr v \<Rightarrow> (Inr v, p\<lparr>gl_resolved_ref := Some v\<rparr>, w1)))))"

subsection \<open>Zenodo, Git, Fake\<close>

record zenodo_provider =
  zen_spec :: string
  zen_record_id :: "string option"

definition zenodo_get_resolved_ref ::
  "zenodo_provider \<Rightarrow> world \<Rightarrow> (error + json) \<times> zenodo_provider \<times> world" where
  "zenodo_get_resolved_ref p w =
     (case fetch \<lparr>req_url = ''https://doi.org/'' @ zen_spec p, req_params = [], req_headers = [],
                  req_user_agent = ''BinderHub''\<rparr> w of
        (Raised c r, w1) \<Rightarrow> (Inl (HTTPError c), p, w1)
      | (Fetched r, w1) \<Rightarrow>
          (case rsplit1 (CHR ''/'') (effective_url r) of
             [a, b] \<Rightarrow> (Inr (JStr b), p\<lparr>zen_record_id := Some b\<rparr>, w1)
           | _ \<Rightarrow> (Inl IndexError, p, w1)))"

definition git_get_resolved_ref ::
  "git_provider \<Rightarrow> world \<Rightarrow> (error + json) \<times> git_provider \<times> world" where
  "git_get_resolved_ref p w = (Inr (JStr (git_resolved_ref p)), p, w)"

definition fake_get_resolved_ref :: "world \<Rightarrow> (error + json) \<times> world" where
  "fake_get_resolved_ref w = (Inr (JStr ''1a2b3c4d5e6f''), w)"

subsection \<open>The common resolution contract\<close>

text \<open>
  The subclasses of \<^verbatim>\<open>RepoProvider\<close> that the module defines; a call of
  \<^verbatim>\<open>get_resolved_ref\<close> is dispatched on the class of the instance.
\<close>

datatype provider =
    Fake string
  | Zenodo zenodo_provider
  | Git git_provider
  | GitLab gitlab_provider
  | GitHub github_provider
  | Gist gist_provider

fun get_resolved_ref :: "provider \<Rightarrow> world \<Rightarrow> (error + json) \<times> provider \<times> world" where
  "get_resolved_ref (Fake spec) w = (case fake_get_resolved_ref w of (r, w1) \<Rightarrow> (r, Fake spec, w1))"
| "get_resolved_ref (Zenodo p) w = (case zenodo_get_resolved_ref p w of (r, p1, w1) \<Rightarrow> (r, Zenodo p1, w1))"
| "get_resolved_ref (Git p) w = (case git_get_resolved_ref p w of (r, p1, w1) \<Rightarrow> (r, Git p1, w1))"
| "get_resolved_ref (GitLab p) w = (case gitlab_get_resolved_ref p w of (r, p1, w1) \<Rightarrow> (r, GitLab p1, w1))"
| "get_resolved_ref (GitHub p) w = (case github_get_resolved_ref p w of (r, p1, w1) \<Rightarrow> (r, GitHub p1, w1))"
| "get_resolved_ref (Gist p) w = (case gist_get_resolved_ref p w of (r, p1, w1) \<Rightarrow> (r, Gist p1, w1))"

subsection \<open>Reading a \<^verbatim>\<open>spec_config\<close> entry\<close>






section \<open>Describing a call\<close>

text \<open>
  Names for what a resolution does to the world, used to state its effects:
  \<open>github_request p w\<close> is the request a GitHub resolution sends from world \<open>w\<close> (with
  the validator of the cache entry of its URL, when there is one), \<open>gist_request\<close> the
  request of a Gist resolution; \<open>fetched req w\<close> is the world after the fetch of \<open>req\<close>,
  \<open>looked_up k w\<close> the world after the cache was asked for \<open>k\<close>.
\<close>

definition github_request :: "github_provider \<Rightarrow> world \<Rightarrow> request" where
  "github_request p w =
     api_request (gh_auth p) (github_api_url p)
       (case map_of (cache w) (github_api_url p) of None \<Rightarrow> None | Some e \<Rightarrow> entry_etag e)"

definition gist_request :: "gist_provider \<Rightarrow> request" where
  "gist_request p = api_request (gist_auth p) (gist_api_url p) None"

definition fetched :: "request \<Rightarrow> world \<Rightarrow> world" where
  "fetched req w = w\<lparr>fetches := Suc (fetches w), trace := trace w @ [Fetch req]\<rparr>"

definition looked_up :: "string \<Rightarrow> world \<Rightarrow> world" where
  "looked_up k w = w\<lparr>cache := snd (cache_get (cache w) k), trace := trace w @ [CacheGet k]\<rparr>"

text \<open>Instances and a world to evaluate the resolvers on: every fetch is refused.\<close>

definition w404 :: world where
  "w404 = \<lparr>cache = [], net = (\<lambda>n req. Raised (if n = 0 then 404 else if n = 1 then 422 else 500) None),
           fetches = 0, now = 0, gauge = None, trace = []\<rparr>"

definition gh0 :: github_provider where
  "gh0 = \<lparr>gh_spec = ''u/r/master'', gh_user = ''u'', gh_repo = ''r'', gh_unresolved_ref = ''master'',
          gh_hostname = ''github.com'', gh_auth = [], gh_resolved_ref = None\<rparr>"

definition gist0 :: gist_provider where
  "gist0 = \<lparr>gist_spec = ''u/g'', gist_user = ''u'', gist_id = ''g'', gist_unresolved_ref = [],
            gist_allow_secret_gist = False, gist_auth = [], gist_resolved_ref = None\<rparr>"




text \<open>
  A world whose cache holds an entry for the URL of \<open>gh0\<close> and one for another URL, and
  whose every fetch is answered 304 with the given headers.
\<close>

definition rate_headers :: "(string \<rightharpoonup> string)" where
  "rate_headers = [''x-ratelimit-remaining'' \<mapsto> ''4999'', ''x-ratelimit-limit'' \<mapsto> ''5000'',
                   ''x-ratelimit-reset'' \<mapsto> ''1000130'']"

definition sha_a :: string where
  "sha_a = replicate 40 (CHR ''a'')"


text \<open>
  A world whose every fetch returns a 200 response with rate-limit headers and the given
  document; the metadata of a gist with the given visibility and version history.
\<close>

definition ok_response :: "json \<Rightarrow> response" where
  "ok_response b = \<lparr>code = 200, headers = rate_headers, body = Some b, effective_url = []\<rparr>"

definition serving :: "json \<Rightarrow> world" where
  "serving b = \<lparr>cache = [], net = (\<lambda>n req. Fetched (ok_response b)),
                fetches = 0, now = 1000000, gauge = None, trace = []\<rparr>"

definition sha_b :: string where
  "sha_b = replicate 40 (CHR ''b'')"

definition gist_metadata :: "bool \<Rightarrow> json list \<Rightarrow> json" where
  "gist_metadata public versions =
     JObj [(''public'', JBool public),
           (''history'', JArr (map (\<lambda>v. JObj [(''version'', v)]) versions))]"

definition two_versions :: json where
  "two_versions = gist_metadata True [JStr sha_a, JStr sha_b]"

text \<open>
  Resolving twice in a row; the Zenodo instances; a commit document; a world that answers
  the first fetch with 404 and every later one with a commit; a world that follows a DOI
  to a record.
\<close>

definition resolve_twice :: "provider \<Rightarrow> world \<Rightarrow> (error + json) \<times> provider \<times> world" where
  "resolve_twice p w = (case get_resolved_ref p w of (r, p1, w1) \<Rightarrow> get_resolved_ref p1 w1)"

definition is_zenodo :: "provider \<Rightarrow> bool" where
  "is_zenodo p = (case p of Zenodo z \<Rightarrow> True | _ \<Rightarrow> False)"

definition commit_doc :: "string \<Rightarrow> json" where
  "commit_doc s = JObj [(''sha'', JStr s)]"

definition w_flaky :: world where
  "w_flaky = \<lparr>cache = [],
              net = (\<lambda>n req. if n = 0 then Raised 404 None else Fetched (ok_response (commit_doc sha_a))),
              fetches = 0, now = 1000000, gauge = None, trace = []\<rparr>"

definition w_redirect :: world where
  "w_redirect = \<lparr>cache = [],
      net = (\<lambda>n req. Fetched \<lparr>code = 200, headers = Map.empty, body = None,
                                effective_url = ''https://zenodo.org/record/3242074''\<rparr>),
      fetches = 0, now = 1000000, gauge = None, trace = []\<rparr>"

definition zen0 :: zenodo_provider where
  "zen0 = \<lparr>zen_spec = ''10.5281/zenodo.3242074'', zen_record_id = None\<rparr>"

section \<open>Where a resolved reference comes from\<close>

text \<open>
  \<open>trailing spec\<close> is the component of a spec after its last \<^verbatim>\<open>/\<close>. \<open>gitlab_request\<close> and
  \<open>zenodo_request\<close> are the requests the GitLab and Zenodo resolutions send. \<open>received\<close>
  is the response a GitHub or Gist resolution works on: the one fetched, or the one carried
  by a 304 error. \<open>doc_field r k\<close> is the value of key \<open>k\<close> in the document of response
  \<open>r\<close>, \<open>last_segment r\<close> the last segment of its effective URL, \<open>history_versions r\<close> the
  versions of the history in its document.

  \<open>supplied p w\<close> is the identifier that the resolution of instance \<open>p\<close> in world \<open>w\<close> is
  handed, as a set with at most one element: the constant of the fake provider; the
  reference a Git instance was constructed with; the reference stored on the instance by an
  earlier resolution; otherwise, read from the answer to the request that this resolution
  itself sends as the next fetch of the world, the last segment of the URL the DOI resolves
  to, the \<^verbatim>\<open>id\<close> of the document, the \<^verbatim>\<open>sha\<close> of the document or, on a 304 answer, of the
  cache entry of the URL, and the version of the gist's history that the unresolved ref
  selects. \<open>w_dois\<close> is a world in which the answer depends on the DOI asked for.
\<close>

definition trailing :: "string \<Rightarrow> string" where
  "trailing spec = rev (takeWhile (\<lambda>c. c \<noteq> CHR ''/'') (rev spec))"

definition gitlab_request :: "gitlab_provider \<Rightarrow> request" where
  "gitlab_request p =
     \<lparr>req_url = gitlab_api_url p, req_params = gl_auth p, req_headers = [],
      req_user_agent = ''BinderHub''\<rparr>"

definition zenodo_request :: "zenodo_provider \<Rightarrow> request" where
  "zenodo_request p =
     \<lparr>req_url = ''https://doi.org/'' @ zen_spec p, req_params = [], req_headers = [],
      req_user_agent = ''BinderHub''\<rparr>"

fun received :: "fetch_outcome \<Rightarrow> response option" where
  "received (Fetched r) = Some r"
| "received (Raised c ro) = (if c = 304 then ro else None)"

definition doc_field :: "response \<Rightarrow> string \<Rightarrow> json option" where
  "doc_field r k =
     (case body r of
        None \<Rightarrow> None
      | Some b \<Rightarrow> (case py_getitem b k of Inl e \<Rightarrow> None | Inr v \<Rightarrow> Some v))"

definition last_segment :: "response \<Rightarrow> json option" where
  "last_segment r =
     (case rsplit1 (CHR ''/'') (effective_url r) of [a, b] \<Rightarrow> Some (JStr b) | _ \<Rightarrow> None)"

definition history_versions :: "response \<Rightarrow> json list" where
  "history_versions r =
     (case doc_field r ''history'' of
        None \<Rightarrow> []
      | Some h \<Rightarrow> (case all_versions_of h of Inl e \<Rightarrow> [] | Inr vs \<Rightarrow> vs))"

fun supplied :: "provider \<Rightarrow> world \<Rightarrow> json set" where
  "supplied (Fake spec) w = {JStr ''1a2b3c4d5e6f''}"
| "supplied (Git g) w = {JStr (git_resolved_ref g)}"
| "supplied (Zenodo z) w =
     (case net w (fetches w) (zenodo_request z) of
        Fetched r \<Rightarrow> set_option (last_segment r)
      | Raised c ro \<Rightarrow> {})"
| "supplied (GitLab g) w =
     (case gl_resolved_ref g of
        Some v \<Rightarrow> {v}
      | None \<Rightarrow>
          (case net w (fetches w) (gitlab_request g) of
             Fetched r \<Rightarrow> set_option (doc_field r ''id'')
           | Raised c ro \<Rightarrow> {}))"
| "supplied (GitHub g) w =
     (case gh_resolved_ref g of
        Some v \<Rightarrow> {v}
      | None \<Rightarrow>
          (case received (net w (fetches w) (github_request g w)) of
             None \<Rightarrow> {}
           | Some r \<Rightarrow>
               if code r = 304
               then set_option (map_option entry_sha (map_of (cache w) (github_api_url g)))
               else set_option (doc_field r ''sha'')))"
| "supplied (Gist g) w =
     (case gist_resolved_ref g of
        Some v \<Rightarrow> {v}
      | None \<Rightarrow>
          (case received (net w (fetches w) (gist_request g)) of
             None \<Rightarrow> {}
           | Some r \<Rightarrow>
               if gist_unresolved_ref g = [] \<or> gist_unresolved_ref g = ''master''
               then set (take 1 (history_versions r))
               else set (filter (\<lambda>u. u = JStr (gist_unresolved_ref g)) (history_versions r))))"

definition w_dois :: world where
  "w_dois = \<lparr>cache = [],
      net = (\<lambda>n req. Fetched \<lparr>code = 200, headers = Map.empty, body = None,
               effective_url = ''https://zenodo.org/record/'' @ drop 16 (req_url req)\<rparr>),
      fetches = 0, now = 1000000, gauge = None, trace = []\<rparr>"

definition zen1 :: zenodo_provider where
  "zen1 = \<lparr>zen_spec = ''10.5281/zenodo.1'', zen_record_id = None\<rparr>"

section \<open>Properties\<close>

lemma split_max_no_sep: "sep \<notin> set s \<Longrightarrow> split_max sep n s = [s]"
  by (cases n) simp_all

lemma split_max_cut:
  assumes "sep \<notin> set a"
  shows "split_max sep (Suc n) (a @ sep # rest) = a # split_max sep n rest"
proof -
  have all: "\<And>x. x \<in> set a \<Longrightarrow> x \<noteq> sep"
    using assms by auto
  have tw: "takeWhile (\<lambda>c. c \<noteq> sep) (a @ sep # rest) = a"
    using all by (simp add: takeWhile_append2)
  have dw: "dropWhile (\<lambda>c. c \<noteq> sep) (a @ sep # rest) = sep # rest"
    using all by (simp add: dropWhile_append2)
  show ?thesis
    by (simp only: split_max.simps tw dw) simp
qed

subsection \<open>Tokenizing a GitHub spec\<close>

lemma split2_two:
  assumes "CHR ''/'' \<notin> set u" "CHR ''/'' \<notin> set r"
  shows "split_max (CHR ''/'') 2 (u @ ''/'' @ r @ ''/'' @ ref) = [u, r, ref]"
proof -
  have "split_max (CHR ''/'') (Suc (Suc 0)) (u @ CHR ''/'' # (r @ CHR ''/'' # ref))
        = u # split_max (CHR ''/'') (Suc 0) (r @ CHR ''/'' # ref)"
    using assms(1) by (rule split_max_cut)
  also have "split_max (CHR ''/'') (Suc 0) (r @ CHR ''/'' # ref) = r # split_max (CHR ''/'') 0 ref"
    using assms(2) by (rule split_max_cut)
  finally show ?thesis by (simp add: numeral_2_eq_2)
qed

lemma split2_one:
  assumes "CHR ''/'' \<notin> set a" "CHR ''/'' \<notin> set b"
  shows "split_max (CHR ''/'') 2 (a @ ''/'' @ b) = [a, b]"
proof -
  have "split_max (CHR ''/'') (Suc (Suc 0)) (a @ CHR ''/'' # b)
        = a # split_max (CHR ''/'') (Suc 0) b"
    using assms(1) by (rule split_max_cut)
  then show ?thesis using assms(2) by (simp add: numeral_2_eq_2 split_max_no_sep)
qed

text \<open>Every string has one of three shapes: no \<^verbatim>\<open>/\<close>, exactly one, or at least two.\<close>

lemma spec_shapes:
  "CHR ''/'' \<notin> set s
   \<or> (\<exists>a b. s = a @ ''/'' @ b \<and> CHR ''/'' \<notin> set a \<and> CHR ''/'' \<notin> set b)
   \<or> (\<exists>u r ref. s = u @ ''/'' @ r @ ''/'' @ ref \<and> CHR ''/'' \<notin> set u \<and> CHR ''/'' \<notin> set r)"
proof (cases "CHR ''/'' \<in> set s")
  case False
  then show ?thesis by simp
next
  case True
  then obtain a rest where s: "s = a @ CHR ''/'' # rest" "CHR ''/'' \<notin> set a"
    by (auto dest: split_list_first)
  show ?thesis
  proof (cases "CHR ''/'' \<in> set rest")
    case False
    with s show ?thesis by auto
  next
    case True
    then obtain r ref where rest: "rest = r @ CHR ''/'' # ref" "CHR ''/'' \<notin> set r"
      by (auto dest: split_list_first)
    with s have "s = a @ ''/'' @ r @ ''/'' @ ref \<and> CHR ''/'' \<notin> set a \<and> CHR ''/'' \<notin> set r"
      by simp
    then show ?thesis by blast
  qed
qed

text \<open>
  Claim C4. \<^verbatim>\<open>tokenize_spec\<close> cuts at the first two \<^verbatim>\<open>/\<close> only. A spec with at least two
  of them, \<open>u/r/ref\<close> with no \<^verbatim>\<open>/\<close> in \<open>u\<close> and \<open>r\<close>, yields the three parts \<open>u\<close>, \<open>r\<close>, \<open>ref\<close>
  (\<open>ref\<close> may contain \<^verbatim>\<open>/\<close>). A spec with exactly one, \<open>a/b\<close>, raises the validation error,
  whose message ends with the suggestion to append \<^verbatim>\<open>/master\<close> exactly when \<open>b\<close> is not
  \<^verbatim>\<open>master\<close>. A spec with none raises it without the suggestion. By \<open>spec_shapes\<close> these
  are all the cases.
\<close>

theorem tokenize_spec_cases:
  "(CHR ''/'' \<notin> set u \<and> CHR ''/'' \<notin> set r \<longrightarrow>
      tokenize_spec (u @ ''/'' @ r @ ''/'' @ ref) = Inr [u, r, ref])
   \<and> (CHR ''/'' \<notin> set a \<and> CHR ''/'' \<notin> set b \<longrightarrow>
      tokenize_spec (a @ ''/'' @ b) =
        Inl (ValueError (not_of_form_msg (a @ ''/'' @ b) @
              (if b \<noteq> ''master'' then did_you_mean_msg (a @ ''/'' @ b) else []))))
   \<and> (CHR ''/'' \<notin> set s \<longrightarrow> tokenize_spec s = Inl (ValueError (not_of_form_msg s)))"
proof (intro conjI impI)
  assume "CHR ''/'' \<notin> set u \<and> CHR ''/'' \<notin> set r"
  then have "split_max (CHR ''/'') 2 (u @ ''/'' @ r @ ''/'' @ ref) = [u, r, ref]"
    using split2_two [of u r ref] by simp
  then show "tokenize_spec (u @ ''/'' @ r @ ''/'' @ ref) = Inr [u, r, ref]"
    by (simp add: tokenize_spec_def)
next
  assume "CHR ''/'' \<notin> set a \<and> CHR ''/'' \<notin> set b"
  then have "split_max (CHR ''/'') 2 (a @ ''/'' @ b) = [a, b]"
    using split2_one [of a b] by simp
  then show "tokenize_spec (a @ ''/'' @ b) =
        Inl (ValueError (not_of_form_msg (a @ ''/'' @ b) @
              (if b \<noteq> ''master'' then did_you_mean_msg (a @ ''/'' @ b) else [])))"
    by (simp add: tokenize_spec_def)
next
  assume "CHR ''/'' \<notin> set s"
  then have "split_max (CHR ''/'') 2 s = [s]"
    by (rule split_max_no_sep)
  then show "tokenize_spec s = Inl (ValueError (not_of_form_msg s))"
    by (simp add: tokenize_spec_def)
qed

theorem tokenize_spec_cases_witness:
  "tokenize_spec ''a/b/c'' = Inr [''a'', ''b'', ''c'']
   \<and> tokenize_spec ''a/b/c/d'' = Inr [''a'', ''b'', ''c/d'']
   \<and> tokenize_spec ''a/b'' = Inl (ValueError
        (''Spec is not of the form '' @ dq @ ''user/repo/ref'' @ dq @ '', provided: '' @ dq @ ''a/b'' @ dq @ ''.''
          @ '' Did you mean '' @ dq @ ''a/b/master'' @ dq @ ''?''))
   \<and> tokenize_spec ''a/master'' = Inl (ValueError (not_of_form_msg ''a/master''))
   \<and> tokenize_spec ''a'' = Inl (ValueError (not_of_form_msg ''a''))"
  using tokenize_spec_cases [of "''a''" "''b''" "''c''" "''a''" "''b''" "''a''"]
        tokenize_spec_cases [of "''a''" "''b''" "''c/d''" "''a''" "''master''" "''a''"]
  by (simp add: not_of_form_msg_def did_you_mean_msg_def)


subsection \<open>Per-pattern configuration\<close>






subsection \<open>The cache and the request\<close>

lemma map_of_filter_other:
  "k' \<noteq> k \<Longrightarrow> map_of (filter (\<lambda>kv. fst kv \<noteq> k) c) k' = map_of c k'"
  by (induction c) auto

lemma map_of_filter_same: "map_of (filter (\<lambda>kv. fst kv \<noteq> k) c) k = None"
  by (induction c) auto

lemma map_of_touch: "map_of c k = Some v \<Longrightarrow> map_of (touch c k v) = map_of c"
proof
  fix k'
  assume "map_of c k = Some v"
  then show "map_of (touch c k v) k' = map_of c k'"
    by (cases "k' = k")
       (simp_all add: touch_def map_add_def map_of_filter_other map_of_filter_same split: option.splits)
qed

lemma cache_get_fst: "fst (cache_get c k) = map_of c k"
  by (simp add: cache_get_def split: option.splits)

lemma cache_get_map_of: "map_of (snd (cache_get c k)) = map_of c"
  by (simp add: cache_get_def map_of_touch split: option.splits)

lemma github_api_request_not_found:
  assumes "net w (fetches w) (api_request auth api_url tag) = Raised c r" "c = 404 \<or> c = 422"
  shows "github_api_request auth api_url tag w = (Inr None, fetched (api_request auth api_url tag) w)"
  using assms by (auto simp: github_api_request_def fetch_def fetched_def is_rate_limited_def)

lemma github_api_request_other:
  assumes "net w (fetches w) (api_request auth api_url tag) = Raised c r"
    "c \<noteq> 304" "c \<noteq> 404" "c \<noteq> 422" "\<not> is_rate_limited c r"
  shows "github_api_request auth api_url tag w = (Inl (HTTPError c), fetched (api_request auth api_url tag) w)"
  using assms by (auto simp: github_api_request_def fetch_def fetched_def)


lemma looked_up_simps:
  "net (looked_up k w) = net w" "fetches (looked_up k w) = fetches w"
  "now (looked_up k w) = now w" "gauge (looked_up k w) = gauge w"
  "trace (looked_up k w) = trace w @ [CacheGet k]"
  "map_of (cache (looked_up k w)) = map_of (cache w)"
  by (simp_all add: looked_up_def cache_get_map_of)

lemma fetched_simps:
  "net (fetched req w) = net w" "fetches (fetched req w) = Suc (fetches w)"
  "now (fetched req w) = now w" "gauge (fetched req w) = gauge w"
  "trace (fetched req w) = trace w @ [Fetch req]"
  "cache (fetched req w) = cache w"
  by (simp_all add: fetched_def)

lemma github_get_resolved_ref_request:
  assumes "gh_resolved_ref p = None"
    and "github_api_request (gh_auth p) (github_api_url p)
           (case map_of (cache w) (github_api_url p) of None \<Rightarrow> None | Some e \<Rightarrow> entry_etag e)
           (looked_up (github_api_url p) w) = (r, w2)"
  shows "github_get_resolved_ref p w =
    (case r of
       Inl e \<Rightarrow> (Inl e, p, w2)
     | Inr None \<Rightarrow> (Inr JNull, p, w2)
     | Inr (Some resp) \<Rightarrow>
         if code resp = 304 then
           (case map_of (cache w) (github_api_url p) of
              None \<Rightarrow> (Inl TypeError, p, w2)
            | Some e \<Rightarrow>
                (case move_to_end (cache w2) (github_api_url p) of
                   Inl err \<Rightarrow> (Inl err, p\<lparr>gh_resolved_ref := Some (entry_sha e)\<rparr>, w2)
                 | Inr c2 \<Rightarrow>
                     (Inr (entry_sha e), p\<lparr>gh_resolved_ref := Some (entry_sha e)\<rparr>,
                      w2\<lparr>cache := c2, trace := trace w2 @ [CacheMoveToEnd (github_api_url p)]\<rparr>)))
         else
           (case body resp of
              None \<Rightarrow> (Inl DecodeError, p, w2)
            | Some ref_info \<Rightarrow>
                (case py_in ''sha'' ref_info of
                   Inl err \<Rightarrow> (Inl err, p, w2)
                 | Inr False \<Rightarrow> (Inr JNull, p\<lparr>gh_resolved_ref := Some JNull\<rparr>, w2)
                 | Inr True \<Rightarrow>
                     (case py_getitem ref_info ''sha'' of
                        Inl err \<Rightarrow> (Inl err, p, w2)
                      | Inr v \<Rightarrow>
                          (Inr v, p\<lparr>gh_resolved_ref := Some v\<rparr>,
                           w2\<lparr>cache := cache_set (cache w2) (github_api_url p)
                                        \<lparr>entry_etag = headers resp ''etag'', entry_sha = v\<rparr>,
                              trace := trace w2 @ [CacheSet (github_api_url p)
                                        \<lparr>entry_etag = headers resp ''etag'', entry_sha = v\<rparr>]\<rparr>)))))"
proof -
  obtain cached c1 where cg: "cache_get (cache w) (github_api_url p) = (cached, c1)"
    by fastforce
  have c: "map_of (cache w) (github_api_url p) = cached"
    using cache_get_fst [of "cache w" "github_api_url p"] cg by simp
  have l: "looked_up (github_api_url p) w =
           w\<lparr>cache := c1, trace := trace w @ [CacheGet (github_api_url p)]\<rparr>"
    by (simp add: looked_up_def cg)
  show ?thesis
    unfolding github_get_resolved_ref_def
    using assms(1) assms(2) [unfolded c l]
    by (simp add: cg c Let_def split: sum.splits option.splits bool.splits)
qed

subsection \<open>Not found and transport failures\<close>

text \<open>
  Claim C3. When the fetch of a GitHub API request raises with status 404 or 422,
  \<^verbatim>\<open>github_api_request\<close> returns \<^verbatim>\<open>None\<close> and raises nothing; the GitHub resolution then
  returns the not-found sentinel, stores nothing on the instance, leaves the content of the
  shared cache as it was and performs no cache write (its only cache operation is the
  lookup); the Gist resolution returns the sentinel and leaves the cache untouched. With
  any other status that is neither 304 nor the rate-limit answer, the \<^verbatim>\<open>HTTPError\<close> is
  re-raised by the request and by both resolutions.
\<close>

theorem not_found_is_sentinel:
  "(net w (fetches w) (api_request auth api_url tag) = Raised c r \<longrightarrow>
      (c = 404 \<or> c = 422 \<longrightarrow>
         github_api_request auth api_url tag w = (Inr None, fetched (api_request auth api_url tag) w))
      \<and> (c \<noteq> 304 \<and> c \<noteq> 404 \<and> c \<noteq> 422 \<and> \<not> is_rate_limited c r \<longrightarrow>
         github_api_request auth api_url tag w
           = (Inl (HTTPError c), fetched (api_request auth api_url tag) w)))
   \<and> (gh_resolved_ref p = None \<and> net w (fetches w) (github_request p w) = Raised c r \<longrightarrow>
      (c = 404 \<or> c = 422 \<longrightarrow>
         (\<exists>w2. github_get_resolved_ref p w = (Inr JNull, p, w2)
            \<and> map_of (cache w2) = map_of (cache w)
            \<and> trace w2 = trace w @ [CacheGet (github_api_url p), Fetch (github_request p w)]))
      \<and> (c \<noteq> 304 \<and> c \<noteq> 404 \<and> c \<noteq> 422 \<and> \<not> is_rate_limited c r \<longrightarrow>
         (\<exists>w2. github_get_resolved_ref p w = (Inl (HTTPError c), p, w2))))
   \<and> (gist_resolved_ref q = None \<and> net w (fetches w) (gist_request q) = Raised c r \<longrightarrow>
      (c = 404 \<or> c = 422 \<longrightarrow>
         (\<exists>w2. gist_get_resolved_ref q w = (Inr JNull, q, w2)
            \<and> cache w2 = cache w \<and> trace w2 = trace w @ [Fetch (gist_request q)]))
      \<and> (c \<noteq> 304 \<and> c \<noteq> 404 \<and> c \<noteq> 422 \<and> \<not> is_rate_limited c r \<longrightarrow>
         (\<exists>w2. gist_get_resolved_ref q w = (Inl (HTTPError c), q, w2))))"
proof (intro conjI impI)
  assume "net w (fetches w) (api_request auth api_url tag) = Raised c r" "c = 404 \<or> c = 422"
  then show "github_api_request auth api_url tag w = (Inr None, fetched (api_request auth api_url tag) w)"
    by (rule github_api_request_not_found)
next
  assume "net w (fetches w) (api_request auth api_url tag) = Raised c r"
    "c \<noteq> 304 \<and> c \<noteq> 404 \<and> c \<noteq> 422 \<and> \<not> is_rate_limited c r"
  then show "github_api_request auth api_url tag w
           = (Inl (HTTPError c), fetched (api_request auth api_url tag) w)"
    by (simp add: github_api_request_other)
next
  let ?w1 = "looked_up (github_api_url p) w"
  assume a: "gh_resolved_ref p = None \<and> net w (fetches w) (github_request p w) = Raised c r"
    and c: "c = 404 \<or> c = 422"
  have "net ?w1 (fetches ?w1) (github_request p w) = Raised c r"
    using a by (simp add: looked_up_simps)
  then have "github_api_request (gh_auth p) (github_api_url p)
           (case map_of (cache w) (github_api_url p) of None \<Rightarrow> None | Some e \<Rightarrow> entry_etag e) ?w1
         = (Inr None, fetched (github_request p w) ?w1)"
    unfolding github_request_def using c by (rule github_api_request_not_found)
  with a have "github_get_resolved_ref p w = (Inr JNull, p, fetched (github_request p w) ?w1)"
    by (simp add: github_get_resolved_ref_request)
  then show "\<exists>w2. github_get_resolved_ref p w = (Inr JNull, p, w2)
            \<and> map_of (cache w2) = map_of (cache w)
            \<and> trace w2 = trace w @ [CacheGet (github_api_url p), Fetch (github_request p w)]"
    by (simp add: fetched_simps looked_up_simps)
next
  let ?w1 = "looked_up (github_api_url p) w"
  assume a: "gh_resolved_ref p = None \<and> net w (fetches w) (github_request p w) = Raised c r"
    and c: "c \<noteq> 304 \<and> c \<noteq> 404 \<and> c \<noteq> 422 \<and> \<not> is_rate_limited c r"
  have "net ?w1 (fetches ?w1) (github_request p w) = Raised c r"
    using a by (simp add: looked_up_simps)
  then have "github_api_request (gh_auth p) (github_api_url p)
           (case map_of (cache w) (github_api_url p) of None \<Rightarrow> None | Some e \<Rightarrow> entry_etag e) ?w1
         = (Inl (HTTPError c), fetched (github_request p w) ?w1)"
    unfolding github_request_def using c by (simp add: github_api_request_other)
  with a have "github_get_resolved_ref p w = (Inl (HTTPError c), p, fetched (github_request p w) ?w1)"
    by (simp add: github_get_resolved_ref_request)
  then show "\<exists>w2. github_get_resolved_ref p w = (Inl (HTTPError c), p, w2)"
    by simp
next
  assume a: "gist_resolved_ref q = None \<and> net w (fetches w) (gist_request q) = Raised c r"
    and c: "c = 404 \<or> c = 422"
  then have "github_api_request (gist_auth q) (gist_api_url q) None w
         = (Inr None, fetched (gist_request q) w)"
    unfolding gist_request_def by (simp add: github_api_request_not_found)
  with a have "gist_get_resolved_ref q w = (Inr JNull, q, fetched (gist_request q) w)"
    by (simp add: gist_get_resolved_ref_def)
  then show "\<exists>w2. gist_get_resolved_ref q w = (Inr JNull, q, w2)
            \<and> cache w2 = cache w \<and> trace w2 = trace w @ [Fetch (gist_request q)]"
    by (simp add: fetched_simps)
next
  assume a: "gist_resolved_ref q = None \<and> net w (fetches w) (gist_request q) = Raised c r"
    and c: "c \<noteq> 304 \<and> c \<noteq> 404 \<and> c \<noteq> 422 \<and> \<not> is_rate_limited c r"
  then have "github_api_request (gist_auth q) (gist_api_url q) None w
         = (Inl (HTTPError c), fetched (gist_request q) w)"
    unfolding gist_request_def by (simp add: github_api_request_other)
  with a have "gist_get_resolved_ref q w = (Inl (HTTPError c), q, fetched (gist_request q) w)"
    by (simp add: gist_get_resolved_ref_def)
  then show "\<exists>w2. gist_get_resolved_ref q w = (Inl (HTTPError c), q, w2)"
    by simp
qed

theorem not_found_is_sentinel_witness:
  "fst (github_api_request [] ''https://api.github.com/x'' None w404) = Inr None
   \<and> fst (github_get_resolved_ref gh0 w404) = Inr JNull
   \<and> fst (gist_get_resolved_ref gist0 w404) = Inr JNull
   \<and> fst (github_api_request [] ''https://api.github.com/x'' None (w404\<lparr>fetches := 2\<rparr>))
        = Inl (HTTPError 500)
   \<and> fst (github_get_resolved_ref gh0 (w404\<lparr>fetches := 2\<rparr>)) = Inl (HTTPError 500)
   \<and> fst (gist_get_resolved_ref gist0 (w404\<lparr>fetches := 1\<rparr>)) = Inr JNull"
  using not_found_is_sentinel [of w404 "[]" "''https://api.github.com/x''" None 404 None gh0 gist0]
        not_found_is_sentinel [of "w404\<lparr>fetches := 2\<rparr>" "[]" "''https://api.github.com/x''"
                                  None 500 None gh0 gist0]
        not_found_is_sentinel [of "w404\<lparr>fetches := 1\<rparr>" "[]" "''https://api.github.com/x''"
                                  None 422 None gh0 gist0]
  by (auto simp: w404_def gh0_def gist0_def is_rate_limited_def)

subsection \<open>Rate limit\<close>







subsection \<open>A 304 answer reuses the cached reference\<close>







lemma rate_headers_ints:
  "int_of_header rate_headers ''x-ratelimit-remaining'' = Inr 4999"
  "int_of_header rate_headers ''x-ratelimit-limit'' = Inr 5000"
  "int_of_header rate_headers ''x-ratelimit-reset'' = Inr 1000130"
  by (simp_all add: int_of_header_def rate_headers_def py_int_def strip_def is_space_def
        py_nat_def is_digit_def digit_of_def)



subsection \<open>Gist versions\<close>

lemma serving_request:
  "github_api_request auth url tag (serving b) =
     (Inr (Some (ok_response b)),
      (fetched (api_request auth url tag) (serving b))\<lparr>gauge := Some 4999\<rparr>)"
  by (simp add: github_api_request_def fetch_def fetched_def serving_def ok_response_def
        record_rate_limit_def rate_headers_ints timedelta_def py_trunc_def Let_def)

lemma versions_of_metadata:
  "versions_of (map (\<lambda>v. JObj [(''version'', v)]) versions) = Inr versions"
  by (induction versions) simp_all

text \<open>
  Claim C7, as amended. Take a Gist resolution whose request returned a response with a
  decodable body, for a gist that is public or with secret gists allowed, whose
  \<^verbatim>\<open>history\<close> can be read as the list \<open>all_versions\<close> of versions. When the unresolved ref
  is empty or \<^verbatim>\<open>master\<close> and the history is not empty, the resolved ref is the first entry
  of the history. When the unresolved ref is another string, it is returned as it is if
  it occurs in the history, and the not-found sentinel is returned if it does not.
\<close>

theorem gist_selects_version:
  assumes "gist_resolved_ref p = None"
    and "github_api_request (gist_auth p) (gist_api_url p) None w = (Inr (Some resp), w1)"
    and "body resp = Some ref_info"
    and "gist_allow_secret_gist p \<or> (\<exists>v. py_getitem ref_info ''public'' = Inr v \<and> truthy v)"
    and "py_getitem ref_info ''history'' = Inr history"
    and "all_versions_of history = Inr all_versions"
  shows "((gist_unresolved_ref p = [] \<or> gist_unresolved_ref p = ''master'') \<and> all_versions \<noteq> [] \<longrightarrow>
            gist_get_resolved_ref p w
              = (Inr (hd all_versions), p\<lparr>gist_resolved_ref := Some (hd all_versions)\<rparr>, w1))
       \<and> (gist_unresolved_ref p \<noteq> [] \<and> gist_unresolved_ref p \<noteq> ''master''
            \<and> JStr (gist_unresolved_ref p) \<in> set all_versions \<longrightarrow>
            gist_get_resolved_ref p w
              = (Inr (JStr (gist_unresolved_ref p)),
                 p\<lparr>gist_resolved_ref := Some (JStr (gist_unresolved_ref p))\<rparr>, w1))
       \<and> (gist_unresolved_ref p \<noteq> [] \<and> gist_unresolved_ref p \<noteq> ''master''
            \<and> JStr (gist_unresolved_ref p) \<notin> set all_versions \<longrightarrow>
            gist_get_resolved_ref p w = (Inr JNull, p, w1))"
proof -
  have allowed: "secret_refused p ref_info = Inr False"
    using assms(4) by (auto simp: secret_refused_def)
  show ?thesis
    using assms(1,2,3,5,6) allowed
    by (cases all_versions) (simp_all add: gist_get_resolved_ref_def)
qed

text \<open>
  Claim C10, as amended. A Gist resolution with an empty or \<^verbatim>\<open>master\<close> unresolved ref,
  for a gist that is public or with secret gists allowed, whose request returned a response
  with a decodable body in which the history is the empty list, raises \<^verbatim>\<open>IndexError\<close> when
  it selects the newest version: it neither returns the sentinel nor raises a \<^verbatim>\<open>ValueError\<close>.
\<close>

theorem gist_empty_history_raises:
  assumes "gist_resolved_ref p = None"
    and "gist_unresolved_ref p = [] \<or> gist_unresolved_ref p = ''master''"
    and "github_api_request (gist_auth p) (gist_api_url p) None w = (Inr (Some resp), w1)"
    and "body resp = Some ref_info"
    and "gist_allow_secret_gist p \<or> (\<exists>v. py_getitem ref_info ''public'' = Inr v \<and> truthy v)"
    and "py_getitem ref_info ''history'' = Inr (JArr [])"
  shows "gist_get_resolved_ref p w = (Inl IndexError, p, w1)"
proof -
  have allowed: "secret_refused p ref_info = Inr False"
    using assms(5) by (auto simp: secret_refused_def)
  show ?thesis
    using assms(1,2,3,4,6) allowed
    by (auto simp: gist_get_resolved_ref_def)
qed

lemma neq_by_length: "length a \<noteq> length b \<Longrightarrow> a \<noteq> b"
  by auto

lemma sha_a_neq: "sha_a \<noteq> []" "sha_a \<noteq> ''master''" "sha_b \<noteq> []" "sha_b \<noteq> ''master''"
  "sha_a \<noteq> sha_b" "''abc'' \<noteq> sha_a" "''abc'' \<noteq> sha_b"
proof -
  have len: "length sha_a = 40" "length sha_b = 40"
    by (simp_all add: sha_a_def sha_b_def)
  show "sha_a \<noteq> []" "sha_a \<noteq> ''master''" "sha_b \<noteq> []" "sha_b \<noteq> ''master''"
    "''abc'' \<noteq> sha_a" "''abc'' \<noteq> sha_b"
    by (rule neq_by_length, simp add: len)+
  show "sha_a \<noteq> sha_b"
    by (simp add: sha_a_def sha_b_def)
qed

lemma two_versions_history:
  "body (ok_response two_versions) = Some two_versions"
  "py_getitem two_versions ''public'' = Inr (JBool True)"
  "py_getitem two_versions ''history''
     = Inr (JArr (map (\<lambda>v. JObj [(''version'', v)]) [JStr sha_a, JStr sha_b]))"
  "all_versions_of (JArr (map (\<lambda>v. JObj [(''version'', v)]) [JStr sha_a, JStr sha_b]))
     = Inr [JStr sha_a, JStr sha_b]"
  by (simp_all add: two_versions_def gist_metadata_def ok_response_def)

theorem gist_selects_version_witness:
  "fst (gist_get_resolved_ref gist0 (serving two_versions)) = Inr (JStr sha_a)
   \<and> fst (gist_get_resolved_ref (gist0\<lparr>gist_unresolved_ref := ''master''\<rparr>) (serving two_versions))
     = Inr (JStr sha_a)
   \<and> fst (gist_get_resolved_ref (gist0\<lparr>gist_unresolved_ref := sha_b\<rparr>) (serving two_versions))
     = Inr (JStr sha_b)
   \<and> fst (gist_get_resolved_ref (gist0\<lparr>gist_unresolved_ref := ''abc''\<rparr>) (serving two_versions))
     = Inr JNull"
  using gist_selects_version [of gist0 "serving two_versions",
          OF _ serving_request two_versions_history(1) _ two_versions_history(3,4)]
        gist_selects_version [of "gist0\<lparr>gist_unresolved_ref := ''master''\<rparr>" "serving two_versions",
          OF _ serving_request two_versions_history(1) _ two_versions_history(3,4)]
        gist_selects_version [of "gist0\<lparr>gist_unresolved_ref := sha_b\<rparr>" "serving two_versions",
          OF _ serving_request two_versions_history(1) _ two_versions_history(3,4)]
        gist_selects_version [of "gist0\<lparr>gist_unresolved_ref := ''abc''\<rparr>" "serving two_versions",
          OF _ serving_request two_versions_history(1) _ two_versions_history(3,4)]
  by (simp add: gist0_def two_versions_history(2) sha_a_neq)

text \<open>
  The claim as stated, for every resolution that fetched the metadata, fails on a secret
  gist when secret gists are not allowed: the resolution raises the permission error
  whatever the unresolved ref is.
\<close>

theorem gist_selects_version_counterexample:
  "fst (gist_get_resolved_ref gist0 (serving (gist_metadata False [JStr sha_a])))
     = Inl (ValueError secret_gist_msg)"
  by (simp add: gist_get_resolved_ref_def gist0_def serving_request ok_response_def
        gist_metadata_def secret_refused_def)

theorem gist_empty_history_raises_witness:
  "fst (gist_get_resolved_ref gist0 (serving (gist_metadata True []))) = Inl IndexError
   \<and> fst (gist_get_resolved_ref (gist0\<lparr>gist_unresolved_ref := ''master''\<rparr>)
            (serving (gist_metadata True []))) = Inl IndexError"
  using gist_empty_history_raises [of gist0 "serving (gist_metadata True [])",
          OF _ _ serving_request, of "gist_metadata True []"]
        gist_empty_history_raises [of "gist0\<lparr>gist_unresolved_ref := ''master''\<rparr>"
          "serving (gist_metadata True [])",
          OF _ _ serving_request, of "gist_metadata True []"]
  by (simp add: gist0_def ok_response_def gist_metadata_def)

text \<open>
  The claim as stated, for every such resolution, fails on a secret gist with an empty
  history when secret gists are not allowed: the permission error is raised before any
  version is selected.
\<close>

theorem gist_empty_history_raises_counterexample:
  "fst (gist_get_resolved_ref gist0 (serving (gist_metadata False [])))
     = Inl (ValueError secret_gist_msg)
   \<and> gist_unresolved_ref gist0 = []"
  by (simp add: gist_get_resolved_ref_def gist0_def serving_request ok_response_def
        gist_metadata_def secret_refused_def)

subsection \<open>Memoization\<close>

lemma github_stores:
  "github_get_resolved_ref p w = (Inr v, p2, w2) \<Longrightarrow> v \<noteq> JNull \<Longrightarrow> gh_resolved_ref p2 = Some v"
  by (auto simp: github_get_resolved_ref_def Let_def
           split: option.splits prod.splits sum.splits if_splits bool.splits)

lemma gist_stores:
  "gist_get_resolved_ref p w = (Inr v, p2, w2) \<Longrightarrow> v \<noteq> JNull \<Longrightarrow> gist_resolved_ref p2 = Some v"
  by (auto simp: gist_get_resolved_ref_def
           split: option.splits prod.splits sum.splits if_splits bool.splits list.splits)

lemma gitlab_stores:
  "gitlab_get_resolved_ref p w = (Inr v, p2, w2) \<Longrightarrow> v \<noteq> JNull \<Longrightarrow> gl_resolved_ref p2 = Some v"
  by (auto simp: gitlab_get_resolved_ref_def
           split: option.splits prod.splits sum.splits if_splits fetch_outcome.splits)

text \<open>
  Claim C9, as amended. For every provider instance other than a Zenodo one: once a call
  of \<^verbatim>\<open>get_resolved_ref\<close> has returned a resolved reference (a value other than the
  not-found sentinel), every later call on the instance, in whatever world, returns the
  same value and leaves the instance and the world as they are: no fetch, no cache access.
\<close>

theorem resolved_ref_is_memoized:
  assumes "\<not> is_zenodo p"
    and "get_resolved_ref p w = (Inr v, p2, w2)"
    and "v \<noteq> JNull"
  shows "get_resolved_ref p2 w3 = (Inr v, p2, w3)"
proof (cases p)
  case (Fake spec)
  with assms(2) show ?thesis by (auto simp: fake_get_resolved_ref_def)
next
  case (Zenodo z)
  with assms(1) show ?thesis by (simp add: is_zenodo_def)
next
  case (Git g)
  with assms(2) show ?thesis by (auto simp: git_get_resolved_ref_def)
next
  case (GitLab g)
  with assms(2) obtain g2 where g2: "gitlab_get_resolved_ref g w = (Inr v, g2, w2)" "p2 = GitLab g2"
    by (auto split: prod.splits)
  from gitlab_stores [OF g2(1) assms(3)] g2(2) show ?thesis
    by (simp add: gitlab_get_resolved_ref_def)
next
  case (GitHub g)
  with assms(2) obtain g2 where g2: "github_get_resolved_ref g w = (Inr v, g2, w2)" "p2 = GitHub g2"
    by (auto split: prod.splits)
  from github_stores [OF g2(1) assms(3)] g2(2) show ?thesis
    by (simp add: github_get_resolved_ref_def)
next
  case (Gist g)
  with assms(2) obtain g2 where g2: "gist_get_resolved_ref g w = (Inr v, g2, w2)" "p2 = Gist g2"
    by (auto split: prod.splits)
  from gist_stores [OF g2(1) assms(3)] g2(2) show ?thesis
    by (simp add: gist_get_resolved_ref_def)
qed

lemma serving_commit:
  "fst (get_resolved_ref (GitHub gh0) (serving (commit_doc sha_a))) = Inr (JStr sha_a)"
  "fst (snd (get_resolved_ref (GitHub gh0) (serving (commit_doc sha_a))))
     = GitHub (gh0\<lparr>gh_resolved_ref := Some (JStr sha_a)\<rparr>)"
  by (simp_all add: github_get_resolved_ref_def gh0_def serving_def
        github_api_url_def cache_get_def github_api_request_def fetch_def api_request_def
        record_rate_limit_def ok_response_def rate_headers_ints
        timedelta_def py_trunc_def commit_doc_def Let_def)

theorem resolved_ref_is_memoized_witness:
  "fst (get_resolved_ref (GitHub gh0) (serving (commit_doc sha_a))) = Inr (JStr sha_a)
   \<and> get_resolved_ref (GitHub (gh0\<lparr>gh_resolved_ref := Some (JStr sha_a)\<rparr>)) w404
       = (Inr (JStr sha_a), GitHub (gh0\<lparr>gh_resolved_ref := Some (JStr sha_a)\<rparr>), w404)"
proof -
  have first: "get_resolved_ref (GitHub gh0) (serving (commit_doc sha_a))
      = (Inr (JStr sha_a), GitHub (gh0\<lparr>gh_resolved_ref := Some (JStr sha_a)\<rparr>),
         snd (snd (get_resolved_ref (GitHub gh0) (serving (commit_doc sha_a)))))"
    by (simp add: prod_eq_iff serving_commit del: get_resolved_ref.simps)
  have nz: "\<not> is_zenodo (GitHub gh0)"
    by (simp add: is_zenodo_def)
  from resolved_ref_is_memoized [OF nz first, of w404] serving_commit(1)
  show ?thesis by (simp del: get_resolved_ref.simps)
qed

text \<open>
  The claim as stated, for every instance and every outcome, fails twice. A GitHub
  resolution answered 404 returns the sentinel and stores nothing: the next call fetches
  again and, answered 200, returns a reference. A Zenodo resolution never looks for a stored
  outcome: each call fetches.
\<close>

theorem resolved_ref_is_memoized_counterexample:
  "fst (get_resolved_ref (GitHub gh0) w_flaky) = Inr JNull
   \<and> fst (resolve_twice (GitHub gh0) w_flaky) = Inr (JStr sha_a)
   \<and> fetches (snd (snd (resolve_twice (GitHub gh0) w_flaky))) = 2
   \<and> fetches (snd (snd (get_resolved_ref (Zenodo zen0) w_redirect))) = 1
   \<and> fetches (snd (snd (resolve_twice (Zenodo zen0) w_redirect))) = 2"
  by (simp add: resolve_twice_def github_get_resolved_ref_def gh0_def w_flaky_def
        github_api_url_def cache_get_def github_api_request_def fetch_def api_request_def
        is_rate_limited_def record_rate_limit_def ok_response_def rate_headers_ints
        timedelta_def py_trunc_def commit_doc_def Let_def cache_set_def touch_def
        zenodo_get_resolved_ref_def zen0_def w_redirect_def rsplit1_def)

subsection \<open>Construction of the Git provider\<close>

lemma git_init_accepts:
  "(\<exists>p. GitRepoProvider_init unquote spec = Inr p)
     \<longleftrightarrow> CHR ''/'' \<in> set spec \<and> SHA1_PATTERN_match (trailing spec)"
  by (auto simp: GitRepoProvider_init_def rsplit1_def sha1_validate_def trailing_def
        SHA1_PATTERN_match_def)

lemma sha_a_literal: "sha_a = ''aaaaaaaaaaaaaaaaaaaaaaaaaaaaaaaaaaaaaaaa''"
  by (simp add: sha_a_def eval_nat_numeral)

text \<open>
  Claim C5 does not hold of the code: \<^verbatim>\<open>SHA1_PATTERN.match\<close> checks a prefix, so a spec
  whose trailing component is forty hexadecimal characters followed by anything is accepted,
  though that component is no sha1. The construction is evaluated on such a spec.
\<close>

theorem git_accepts_longer_ref:
  "GitRepoProvider_init id (''repo/'' @ sha_a @ ''zz'')
     = Inr \<lparr>git_spec = ''repo/'' @ sha_a @ ''zz'', git_repo = ''repo'',
            git_resolved_ref = sha_a @ ''zz'', git_unresolved_ref = sha_a @ ''zz''\<rparr>
   \<and> \<not> is_sha1 (sha_a @ ''zz'')"
  by (simp add: GitRepoProvider_init_def rsplit1_def sha1_validate_def
        SHA1_PATTERN_match_def is_sha1_def sha_a_literal is_lower_hex_def)

subsection \<open>What a resolution returns\<close>

lemma record_rate_limit_response:
  "record_rate_limit resp w = (Inr (Some r), w2) \<Longrightarrow> r = resp"
  by (auto simp: record_rate_limit_def Let_def split: sum.splits if_splits)

lemma github_api_request_received:
  assumes "github_api_request auth url tag w = (Inr (Some r), w2)"
  shows "received (net w (fetches w) (api_request auth url tag)) = Some r"
proof (cases "net w (fetches w) (api_request auth url tag)")
  case (Fetched resp)
  with assms have "record_rate_limit resp (fetched (api_request auth url tag) w) = (Inr (Some r), w2)"
    by (simp add: github_api_request_def fetch_def fetched_def)
  then have "r = resp" by (rule record_rate_limit_response)
  with Fetched show ?thesis by simp
next
  case (Raised c ro)
  with assms have c: "c = 304"
    by (auto simp: github_api_request_def fetch_def split: if_splits option.splits)
  with assms Raised obtain resp where ro: "ro = Some resp"
    by (cases ro) (auto simp: github_api_request_def fetch_def)
  with assms Raised c
  have "record_rate_limit resp (fetched (api_request auth url tag) w) = (Inr (Some r), w2)"
    by (simp add: github_api_request_def fetch_def fetched_def)
  then have "r = resp" by (rule record_rate_limit_response)
  with Raised ro c show ?thesis by simp
qed

lemma github_supplied:
  assumes "github_get_resolved_ref g w = (Inr v, g2, w2)"
  shows "v = JNull \<or> v \<in> supplied (GitHub g) w"
proof (cases "gh_resolved_ref g")
  case (Some m)
  with assms show ?thesis by (simp add: github_get_resolved_ref_def)
next
  case None
  let ?url = "github_api_url g"
  obtain r w1 where req: "github_api_request (gh_auth g) ?url
           (case map_of (cache w) ?url of None \<Rightarrow> None | Some e \<Rightarrow> entry_etag e)
           (looked_up ?url w) = (r, w1)"
    by fastforce
  note unf = assms [unfolded github_get_resolved_ref_request [OF None req]]
  show ?thesis
  proof (cases r)
    case (Inl e)
    with unf show ?thesis by simp
  next
    case (Inr ro)
    show ?thesis
    proof (cases ro)
      case None
      with Inr unf show ?thesis by simp
    next
      case (Some resp)
      with Inr req have "received (net (looked_up ?url w) (fetches (looked_up ?url w))
                            (github_request g w)) = Some resp"
        unfolding github_request_def by (simp add: github_api_request_received)
      then have resp: "received (net w (fetches w) (github_request g w)) = Some resp"
        by (simp add: looked_up_simps)
      show ?thesis
      proof (cases "code resp = 304")
        case True
        with unf Inr Some obtain e where e: "map_of (cache w) ?url = Some e" "v = entry_sha e"
          by (auto split: option.splits sum.splits)
        with \<open>gh_resolved_ref g = None\<close> resp True show ?thesis by simp
      next
        case False
        with unf Inr Some have "v = JNull \<or> (\<exists>b. body resp = Some b \<and> py_getitem b ''sha'' = Inr v)"
          by (auto split: option.splits sum.splits bool.splits)
        with \<open>gh_resolved_ref g = None\<close> resp False show ?thesis
          by (auto simp: doc_field_def)
      qed
    qed
  qed
qed

lemma gist_supplied:
  assumes "gist_get_resolved_ref g w = (Inr v, g2, w2)"
  shows "v = JNull \<or> v \<in> supplied (Gist g) w"
proof (cases "gist_resolved_ref g")
  case (Some m)
  with assms show ?thesis by (simp add: gist_get_resolved_ref_def)
next
  case None
  obtain r w1 where req: "github_api_request (gist_auth g) (gist_api_url g) None w = (r, w1)"
    by fastforce
  show ?thesis
  proof (cases "\<exists>resp. r = Inr (Some resp)")
    case False
    with assms None req show ?thesis
      by (auto simp: gist_get_resolved_ref_def split: sum.splits option.splits)
  next
    case True
    then obtain resp where r: "r = Inr (Some resp)" by blast
    with req have resp: "received (net w (fetches w) (gist_request g)) = Some resp"
      unfolding gist_request_def by (simp add: github_api_request_received)
    from assms None req r
    have "v = JNull \<or> (\<exists>b h vs. body resp = Some b \<and> py_getitem b ''history'' = Inr h
             \<and> all_versions_of h = Inr vs
             \<and> (if gist_unresolved_ref g = [] \<or> gist_unresolved_ref g = ''master''
                 then v \<in> set (take 1 vs)
                 else v = JStr (gist_unresolved_ref g) \<and> v \<in> set vs))"
      by (auto simp: gist_get_resolved_ref_def
               split: sum.splits option.splits bool.splits list.splits if_splits)
    with resp None show ?thesis
      by (auto simp: history_versions_def doc_field_def split: if_splits)
  qed
qed

lemma gitlab_supplied:
  assumes "gitlab_get_resolved_ref g w = (Inr v, g2, w2)"
  shows "v = JNull \<or> v \<in> supplied (GitLab g) w"
  using assms
  by (auto simp: gitlab_get_resolved_ref_def fetch_def gitlab_request_def doc_field_def
           split: option.splits sum.splits fetch_outcome.splits if_splits)

lemma zenodo_supplied:
  assumes "zenodo_get_resolved_ref z w = (Inr v, z2, w2)"
  shows "v \<in> supplied (Zenodo z) w"
  using assms
  by (auto simp: zenodo_get_resolved_ref_def fetch_def zenodo_request_def last_segment_def
           split: fetch_outcome.splits list.splits)

lemma returns_supplied:
  assumes "get_resolved_ref p w = (Inr v, p2, w2)"
  shows "v = JNull \<or> v \<in> supplied p w"
proof (cases p)
  case (Fake spec)
  with assms show ?thesis by (auto simp: fake_get_resolved_ref_def)
next
  case (Zenodo z)
  with assms obtain q where "zenodo_get_resolved_ref z w = (Inr v, q, w2)"
    by (auto split: prod.splits)
  from zenodo_supplied [OF this] show ?thesis
    unfolding \<open>p = Zenodo z\<close> by blast
next
  case (Git g)
  with assms show ?thesis by (auto simp: git_get_resolved_ref_def)
next
  case (GitLab g)
  with assms obtain q where "gitlab_get_resolved_ref g w = (Inr v, q, w2)"
    by (auto split: prod.splits)
  from gitlab_supplied [OF this] show ?thesis
    unfolding \<open>p = GitLab g\<close> by blast
next
  case (GitHub g)
  with assms obtain q where "github_get_resolved_ref g w = (Inr v, q, w2)"
    by (auto split: prod.splits)
  from github_supplied [OF this] show ?thesis
    unfolding \<open>p = GitHub g\<close> by blast
next
  case (Gist g)
  with assms obtain q where "gist_get_resolved_ref g w = (Inr v, q, w2)"
    by (auto split: prod.splits)
  from gist_supplied [OF this] show ?thesis
    unfolding \<open>p = Gist g\<close> by blast
qed

lemma take1_unique: "u \<in> set (take (Suc 0) vs) \<Longrightarrow> u' \<in> set (take (Suc 0) vs) \<Longrightarrow> u = u'"
  by (cases vs) simp_all

lemma supplied_unique: "u \<in> supplied p w \<Longrightarrow> u' \<in> supplied p w \<Longrightarrow> u = u'"
  by (cases p)
     (auto split: option.splits fetch_outcome.splits if_splits dest: take1_unique)

text \<open>
  Claim C8, as amended. For every provider instance, in every world: when resolution
  returns a value rather than raising, the value is the not-found sentinel or the
  identifier supplied to this resolution, returned as it is: the constant of the fake
  provider, the reference the Git instance was constructed with, the reference stored by
  an earlier resolution, or what the answer to the instance's own request carries. There
  is at most one such identifier, and resolution checks nothing against the sha1 pattern.
  So the value is a string of forty lower-case hexadecimal characters, or the sentinel,
  whenever the supplied identifier is such a string.
\<close>

theorem resolution_returns_supplied:
  assumes "get_resolved_ref p w = (Inr v, p2, w2)"
  shows "(v = JNull \<or> v \<in> supplied p w)
       \<and> (\<forall>u \<in> supplied p w. \<forall>u' \<in> supplied p w. u = u')
       \<and> ((\<forall>u \<in> supplied p w. \<exists>s. u = JStr s \<and> is_sha1 s)
            \<longrightarrow> v = JNull \<or> (\<exists>s. v = JStr s \<and> is_sha1 s))"
  using returns_supplied [OF assms] supplied_unique [of _ p w] by blast

lemma supplied_serving:
  "supplied (GitHub gh0) (serving (commit_doc sha_a)) = {JStr sha_a}"
  by (simp add: gh0_def serving_def ok_response_def commit_doc_def doc_field_def)

theorem resolution_returns_supplied_witness:
  "fst (get_resolved_ref (GitHub gh0) (serving (commit_doc sha_a))) = Inr (JStr sha_a)
   \<and> supplied (GitHub gh0) (serving (commit_doc sha_a)) = {JStr sha_a}
   \<and> is_sha1 sha_a"
proof -
  have first: "get_resolved_ref (GitHub gh0) (serving (commit_doc sha_a))
      = (Inr (JStr sha_a), GitHub (gh0\<lparr>gh_resolved_ref := Some (JStr sha_a)\<rparr>),
         snd (snd (get_resolved_ref (GitHub gh0) (serving (commit_doc sha_a)))))"
    by (simp add: prod_eq_iff serving_commit del: get_resolved_ref.simps)
  have valid: "\<forall>u \<in> supplied (GitHub gh0) (serving (commit_doc sha_a)). \<exists>s. u = JStr s \<and> is_sha1 s"
    unfolding supplied_serving
    by (simp add: is_sha1_def sha_a_literal is_lower_hex_def)
  from resolution_returns_supplied [OF first] valid serving_commit(1) supplied_serving
  show ?thesis by (simp del: get_resolved_ref.simps supplied.simps)
qed

text \<open>
  The claim as stated, for every provider, fails on the fake provider, whose constant has
  twelve characters, and on a GitHub resolution whose document carries a \<^verbatim>\<open>sha\<close> that is no
  sha1: it is returned as it is.
\<close>

theorem resolution_returns_supplied_counterexample:
  "fst (get_resolved_ref (Fake ''any/spec'') w404) = Inr (JStr ''1a2b3c4d5e6f'')
   \<and> \<not> is_sha1 ''1a2b3c4d5e6f''
   \<and> fst (get_resolved_ref (GitHub gh0) (serving (commit_doc ''not-a-sha''))) = Inr (JStr ''not-a-sha'')
   \<and> \<not> is_sha1 ''not-a-sha''"
  by (simp add: fake_get_resolved_ref_def is_sha1_def github_get_resolved_ref_def gh0_def serving_def
        github_api_url_def cache_get_def github_api_request_def fetch_def api_request_def
        record_rate_limit_def ok_response_def rate_headers_ints
        timedelta_def py_trunc_def commit_doc_def Let_def)

text \<open>
  The supplied identifier is that of the instance's own request: in a world whose answer
  depends on the DOI, two Zenodo instances are supplied, and return, different records.
\<close>

lemma supplied_own_request:
  "supplied (Zenodo zen0) w_dois = {JStr ''zenodo.3242074''}"
  "supplied (Zenodo zen1) w_dois = {JStr ''zenodo.1''}"
  "fst (get_resolved_ref (Zenodo zen0) w_dois) = Inr (JStr ''zenodo.3242074'')"
  "fst (get_resolved_ref (Zenodo zen1) w_dois) = Inr (JStr ''zenodo.1'')"
  by (simp_all add: zen0_def zen1_def w_dois_def zenodo_request_def last_segment_def rsplit1_def
        zenodo_get_resolved_ref_def fetch_def)

end
